theory Spec2Isabelle
  imports Main "HOL-Library.Sublist" "HOL-Library.Multiset"
begin

section \<open>Values of the manifest\<close>

text \<open>
  \<^verbatim>\<open>modrinth.index.json\<close> is read with \<^verbatim>\<open>json.loads\<close>, and the code looks into the
  result with \<^verbatim>\<open>.get\<close>, \<^verbatim>\<open>in\<close>, subscripts and truth tests, without any check of
  its shape. The model therefore keeps the values as Python has them: an object is a
  dictionary (an association list whose first binding of a key is the one looked up),
  numbers are integers.
\<close>

datatype json =
    JNull
  | JBool bool
  | JNum int
  | JStr string
  | JArr "json list"
  | JObj "(string \<times> json) list"

text \<open>A pure POSIX path as \<^verbatim>\<open>pathlib\<close> holds it: whether it has a root, and its
  parts below the root.\<close>

datatype ppath = PPath bool "string list"

text \<open>The exceptions the code can raise. \<open>Mismatch label dest expected got\<close> is the
  \<^verbatim>\<open>ValueError\<close> of lines 134 and 138, whose message is
  \<^verbatim>\<open>"{label} mismatch for {dest}: expected {expected}, got {got}"\<close>. \<open>OSError\<close>
  carries the cause of a failure of the network or of the file system.\<close>

datatype error =
    FileNotFoundError
  | RuntimeError string
  | TypeError
  | AttributeError
  | KeyError
  | OSError string
  | Mismatch string ppath string string

text \<open>Python's truth value of a JSON value (\<^verbatim>\<open>if not x\<close>, \<^verbatim>\<open>x or y\<close>).\<close>

fun truthy :: "json \<Rightarrow> bool" where
  "truthy JNull = False"
| "truthy (JBool b) = b"
| "truthy (JNum n) = (n \<noteq> 0)"
| "truthy (JStr s) = (s \<noteq> [])"
| "truthy (JArr xs) = (xs \<noteq> [])"
| "truthy (JObj kv) = (kv \<noteq> [])"

text \<open>\<^verbatim>\<open>x.get(k)\<close>: \<^verbatim>\<open>None\<close> for a key that is absent; only a dictionary has the
  method.\<close>

definition dict_get :: "(string \<times> json) list \<Rightarrow> string \<Rightarrow> json" where
  "dict_get kv k = (case map_of kv k of None \<Rightarrow> JNull | Some v \<Rightarrow> v)"

fun py_get :: "json \<Rightarrow> string \<Rightarrow> error + json" where
  "py_get (JObj kv) k = Inr (dict_get kv k)"
| "py_get _ k = Inl AttributeError"

text \<open>\<^verbatim>\<open>k in x\<close> for a string \<open>k\<close>: a key of a dictionary, an element of a list, a
  substring of a string; other values are not containers.\<close>

fun py_in :: "string \<Rightarrow> json \<Rightarrow> error + bool" where
  "py_in k (JObj kv) = Inr (k \<in> fst ` set kv)"
| "py_in k (JArr xs) = Inr (JStr k \<in> set xs)"
| "py_in k (JStr s) = Inr (sublist k s)"
| "py_in k _ = Inl TypeError"

text \<open>\<^verbatim>\<open>x[k]\<close> for a string \<open>k\<close>.\<close>

fun py_item :: "json \<Rightarrow> string \<Rightarrow> error + json" where
  "py_item (JObj kv) k = (case map_of kv k of None \<Rightarrow> Inl KeyError | Some v \<Rightarrow> Inr v)"
| "py_item _ k = Inl TypeError"

text \<open>\<^verbatim>\<open>x[0]\<close>, used on a value that is true.\<close>

fun py_first :: "json \<Rightarrow> error + json" where
  "py_first (JArr (x # xs)) = Inr x"
| "py_first (JObj kv) = Inl KeyError"
| "py_first _ = Inl TypeError"

text \<open>\<^verbatim>\<open>for entry in x\<close>: the elements of a list, the keys of a dictionary, the
  characters of a string.\<close>

fun py_iter :: "json \<Rightarrow> error + json list" where
  "py_iter (JArr xs) = Inr xs"
| "py_iter (JObj kv) = Inr (map (\<lambda>p. JStr (fst p)) kv)"
| "py_iter (JStr s) = Inr (map (\<lambda>c. JStr [c]) s)"
| "py_iter _ = Inl TypeError"

text \<open>\<^verbatim>\<open>str.lower\<close> on the ASCII letters.\<close>

definition lower_char :: "char \<Rightarrow> char" where
  "lower_char c =
     (case map_of (zip ''ABCDEFGHIJKLMNOPQRSTUVWXYZ'' ''abcdefghijklmnopqrstuvwxyz'') c of
        None \<Rightarrow> c
      | Some d \<Rightarrow> d)"

definition lower :: "string \<Rightarrow> string" where
  "lower s = map lower_char s"

section \<open>Paths\<close>

fun split_on :: "char \<Rightarrow> string \<Rightarrow> string list" where
  "split_on c [] = [[]]"
| "split_on c (x # xs) =
     (if x = c then [] # split_on c xs
      else (case split_on c xs of [] \<Rightarrow> [[x]] | w # ws \<Rightarrow> (x # w) # ws))"

text \<open>\<^verbatim>\<open>PurePosixPath(s)\<close>: a leading slash is the root; empty parts and \<^verbatim>\<open>.\<close>
  are dropped; \<^verbatim>\<open>..\<close> is kept as a part.\<close>

definition parse_path :: "string \<Rightarrow> ppath" where
  "parse_path s =
     PPath (case s of [] \<Rightarrow> False | c # _ \<Rightarrow> c = CHR ''/'')
           (filter (\<lambda>p. p \<noteq> [] \<and> p \<noteq> ''.'') (split_on CHR ''/'' s))"

text \<open>\<^verbatim>\<open>outdir.joinpath(path)\<close> (line 227): a path with a root replaces \<open>outdir\<close>;
  a value that is not a string raises \<^verbatim>\<open>TypeError\<close>.\<close>

fun joinpath :: "ppath \<Rightarrow> json \<Rightarrow> error + ppath" where
  "joinpath (PPath a ps) (JStr s) =
     (case parse_path s of
        PPath True qs \<Rightarrow> Inr (PPath True qs)
      | PPath False qs \<Rightarrow> Inr (PPath a (ps @ qs)))"
| "joinpath p _ = Inl TypeError"

section \<open>The world a run sees\<close>

type_synonym bytes = string

type_synonym fs = "ppath \<rightharpoonup> bytes"

text \<open>What \<^verbatim>\<open>requests.get\<close> does for a URL: it raises (no connection, or
  \<^verbatim>\<open>raise_for_status\<close> refuses the status), or it yields chunks and then either ends
  or raises in the middle of the stream.\<close>

datatype response =
    GetFails string
  | Stream "bytes list" "string option"

datatype archive =
    NotFound
  | BadZip
  | Zip "json option"

text \<open>
  Everything outside the program: whether the two optional imports of lines 18 to 27
  succeeded, the network, the faults of the file system at a destination, the two hash
  functions of \<^verbatim>\<open>hashlib\<close>, the time at which the task of an input index finishes,
  and the archive: missing, not a zip file, or a zip file with the parsed index (if it has
  one). \<open>setup_error\<close> is an error of reading the index, creating the output
  directory or copying the overrides (lines 150 to 175); \<open>derived_outdir\<close> is the
  directory lines 159 to 164 choose when none is given.
\<close>

record world =
  has_requests :: bool
  has_tqdm :: bool
  http_get :: "json \<Rightarrow> response"
  mkdir_error :: "ppath \<Rightarrow> string option"
  open_error :: "ppath \<Rightarrow> string option"
  unlink_fails :: "ppath \<Rightarrow> bool"
  sha1_hex :: "bytes \<Rightarrow> string"
  sha512_hex :: "bytes \<Rightarrow> string"
  finish_time :: "nat \<Rightarrow> nat"
  archive :: "ppath \<Rightarrow> archive"
  setup_error :: "string option"
  derived_outdir :: ppath

section \<open>download_file\<close>

text \<open>Lines 93 and 94: an accumulator is created when the expected hashes are true and
  name the algorithm. An accumulator is the bytes it was fed.\<close>

definition new_hasher :: "string \<Rightarrow> json \<Rightarrow> error + bytes option" where
  "new_hasher alg expected_hashes =
     (if truthy expected_hashes then
        (case py_in alg expected_hashes of
           Inl e \<Rightarrow> Inl e
         | Inr b \<Rightarrow> Inr (if b then Some [] else None))
      else Inr None)"

text \<open>Lines 109 to 117: the file, and each accumulator that exists, receive every
  chunk that is not empty.\<close>

fun write_chunks ::
  "bytes list \<Rightarrow> bytes \<times> bytes option \<times> bytes option \<Rightarrow> bytes \<times> bytes option \<times> bytes option"
where
  "write_chunks [] st = st"
| "write_chunks (chunk # rest) (f, h1, h512) =
     (if chunk = [] then write_chunks rest (f, h1, h512)
      else write_chunks rest (f @ chunk, map_option (\<lambda>h. h @ chunk) h1,
                              map_option (\<lambda>h. h @ chunk) h512))"

text \<open>Lines 97 to 119, the body of the \<^verbatim>\<open>try\<close>: the request, then the file opened
  for writing (created or truncated), then the chunks.\<close>

definition fetch ::
  "world \<Rightarrow> json \<Rightarrow> ppath \<Rightarrow> bytes option \<Rightarrow> bytes option \<Rightarrow> fs
     \<Rightarrow> (error + bytes option \<times> bytes option) \<times> fs" where
  "fetch w url dest h1 h512 files =
     (case http_get w url of
        GetFails m \<Rightarrow> (Inl (OSError m), files)
      | Stream chunks err \<Rightarrow>
          (case open_error w dest of
             Some m \<Rightarrow> (Inl (OSError m), files)
           | None \<Rightarrow>
               (case write_chunks chunks ([], h1, h512) of
                  (f, h1', h512') \<Rightarrow>
                    (case err of
                       Some m \<Rightarrow> (Inl (OSError m), files(dest \<mapsto> f))
                     | None \<Rightarrow> (Inr (h1', h512'), files(dest \<mapsto> f))))))"

text \<open>Lines 122 to 126: the file is unlinked if it exists; an error of the unlink is
  swallowed.\<close>

definition cleanup :: "world \<Rightarrow> ppath \<Rightarrow> fs \<Rightarrow> fs" where
  "cleanup w dest files =
     (if files dest \<noteq> None then (if unlink_fails w dest then files else files(dest := None))
      else files)"

text \<open>Lines 131 to 134 and 135 to 138: one algorithm's comparison.\<close>

definition check_hash ::
  "string \<Rightarrow> string \<Rightarrow> (bytes \<Rightarrow> string) \<Rightarrow> ppath \<Rightarrow> json \<Rightarrow> bytes option \<Rightarrow> error + unit" where
  "check_hash alg label hexdigest dest expected_hashes h =
     (case py_in alg expected_hashes of
        Inl e \<Rightarrow> Inl e
      | Inr b \<Rightarrow>
          (case h of
             None \<Rightarrow> Inr ()
           | Some acc \<Rightarrow>
               if b then
                 (case py_item expected_hashes alg of
                    Inl e \<Rightarrow> Inl e
                  | Inr (JStr expected) \<Rightarrow>
                      if lower (hexdigest acc) \<noteq> lower expected
                      then Inl (Mismatch label dest expected (hexdigest acc))
                      else Inr ()
                  | Inr _ \<Rightarrow> Inl AttributeError)
               else Inr ()))"

definition verify ::
  "world \<Rightarrow> ppath \<Rightarrow> json \<Rightarrow> bytes option \<Rightarrow> bytes option \<Rightarrow> error + unit" where
  "verify w dest expected_hashes h1 h512 =
     (if truthy expected_hashes then
        (case check_hash ''sha1'' ''SHA1'' (sha1_hex w) dest expected_hashes h1 of
           Inl e \<Rightarrow> Inl e
         | Inr _ \<Rightarrow> check_hash ''sha512'' ''SHA512'' (sha512_hex w) dest expected_hashes h512)
      else Inr ())"

text \<open>
  \<open>download_file\<close>, lines 83 to 139. The result is \<open>Inr True\<close> for
  \<^verbatim>\<open>return True\<close> and \<open>Inl e\<close> for an exception that leaves the function; the file
  system is returned as the call leaves it. \<open>position\<close> and \<open>total_size\<close> reach
  the progress bar only (the conversion of line 101 is guarded by its own \<^verbatim>\<open>try\<close>).
\<close>

definition download_file ::
  "world \<Rightarrow> json \<Rightarrow> ppath \<Rightarrow> json \<Rightarrow> nat \<Rightarrow> json \<Rightarrow> fs \<Rightarrow> (error + bool) \<times> fs" where
  "download_file w url dest expected_hashes position total_size files =
     (if \<not> has_requests w then
        (Inl (RuntimeError ''requests library is required to download files. Install with: pip install -r requirements.txt''), files)
      else if \<not> has_tqdm w then
        (Inl (RuntimeError ''tqdm is required for progress bars. Install with: pip install -r requirements.txt''), files)
      else
        (case mkdir_error w dest of
           Some m \<Rightarrow> (Inl (OSError m), files)
         | None \<Rightarrow>
             (case new_hasher ''sha1'' expected_hashes of
                Inl e \<Rightarrow> (Inl e, files)
              | Inr h1 \<Rightarrow>
                  (case new_hasher ''sha512'' expected_hashes of
                     Inl e \<Rightarrow> (Inl e, files)
                   | Inr h512 \<Rightarrow>
                       (case fetch w url dest h1 h512 files of
                          (Inl e, files') \<Rightarrow> (Inl e, cleanup w dest files')
                        | (Inr (h1', h512'), files') \<Rightarrow>
                            (case verify w dest expected_hashes h1' h512' of
                               Inl e \<Rightarrow> (Inl e, files')
                             | Inr _ \<Rightarrow> (Inr True, files')))))))"

section \<open>process_mrpack\<close>

text \<open>Lines 189 to 195, the test of one entry when \<^verbatim>\<open>server_files_only\<close> is set:
  \<open>Inr True\<close> when the entry is appended, \<open>Inr False\<close> for \<^verbatim>\<open>continue\<close>.\<close>

definition server_ok :: "json \<Rightarrow> error + bool" where
  "server_ok entry =
     (case py_get entry ''env'' of
        Inl e \<Rightarrow> Inl e
      | Inr v \<Rightarrow>
          (case py_get (if truthy v then v else JObj []) ''server'' of
             Inl e \<Rightarrow> Inl e
           | Inr s \<Rightarrow>
               Inr ((if s = JNull then JStr ''unknown'' else s)
                      \<in> set [JStr ''required'', JStr ''optional'', JStr ''unknown''])))"

text \<open>Lines 186 to 196.\<close>

fun filter_files :: "bool \<Rightarrow> json list \<Rightarrow> error + json list" where
  "filter_files server_files_only [] = Inr []"
| "filter_files server_files_only (entry # rest) =
     (if server_files_only then
        (case server_ok entry of
           Inl e \<Rightarrow> Inl e
         | Inr ok \<Rightarrow>
             (case filter_files server_files_only rest of
                Inl e \<Rightarrow> Inl e
              | Inr kept \<Rightarrow> Inr (if ok then entry # kept else kept)))
      else
        (case filter_files server_files_only rest of
           Inl e \<Rightarrow> Inl e
         | Inr kept \<Rightarrow> Inr (entry # kept)))"

text \<open>What line 232 submits and line 233 remembers of a task.\<close>

record task =
  t_idx :: nat
  t_total :: nat
  t_path :: json
  t_url :: json
  t_dest :: ppath
  t_hashes :: json
  t_position :: nat
  t_size :: json

text \<open>The lines the download phase prints.\<close>

datatype msg =
    IndexNotFound
  | NoFilesListed
  | NoFilesAfterFilter
  | SkipNoPath nat nat
  | SkipNoUrl nat nat json
  | Scheduling nat nat json ppath
  | FailedMsg nat nat json error
  | Downloaded nat nat
  | ErrorMsg error

text \<open>Lines 216 to 234, the body of the scheduling loop for one entry: an exception, or
  the line printed together with the task submitted, if one is.\<close>

fun schedule_entry ::
  "ppath \<Rightarrow> bool \<Rightarrow> nat \<Rightarrow> nat \<Rightarrow> nat \<Rightarrow> json \<Rightarrow> error + task option \<times> msg" where
  "schedule_entry outdir verify_hashes tot idx position (JObj kv) =
     (let path = dict_get kv ''path'' in
      if \<not> truthy path then Inr (None, SkipNoPath idx tot)
      else
        (let d = dict_get kv ''downloads'';
             d' = (if truthy d then d else JArr []);
             downloads = (case d' of JStr s \<Rightarrow> JArr [JStr s] | _ \<Rightarrow> d')
         in
         if \<not> truthy downloads then Inr (None, SkipNoUrl idx tot path)
         else
           (case py_first downloads of
              Inl e \<Rightarrow> Inl e
            | Inr url \<Rightarrow>
                (case joinpath outdir path of
                   Inl e \<Rightarrow> Inl e
                 | Inr dest \<Rightarrow>
                     (let expected_hashes = (if verify_hashes then dict_get kv ''hashes'' else JNull);
                          s = dict_get kv ''fileSize'';
                          size = (if truthy s then s else JNull)
                      in Inr (Some \<lparr>t_idx = idx, t_total = tot, t_path = path, t_url = url,
                                     t_dest = dest, t_hashes = expected_hashes,
                                     t_position = position, t_size = size\<rparr>,
                              Scheduling idx tot url dest))))))"
| "schedule_entry outdir verify_hashes tot idx position entry = Inl AttributeError"

text \<open>Lines 215 to 234: the tasks submitted, in the order of submission, the lines
  printed, and the exception that ended the loop, if one did.\<close>

fun schedule_loop ::
  "ppath \<Rightarrow> bool \<Rightarrow> nat \<Rightarrow> nat \<Rightarrow> nat \<Rightarrow> json list \<Rightarrow> task list \<times> msg list \<times> error option" where
  "schedule_loop outdir verify_hashes tot idx position [] = ([], [], None)"
| "schedule_loop outdir verify_hashes tot idx position (entry # rest) =
     (case schedule_entry outdir verify_hashes tot idx position entry of
        Inl e \<Rightarrow> ([], [], Some e)
      | Inr (None, m) \<Rightarrow>
          (case schedule_loop outdir verify_hashes tot (Suc idx) position rest of
             (ts, ms, r) \<Rightarrow> (ts, m # ms, r))
      | Inr (Some t, m) \<Rightarrow>
          (case schedule_loop outdir verify_hashes tot (Suc idx) (Suc position) rest of
             (ts, ms, r) \<Rightarrow> (t # ts, m # ms, r)))"

text \<open>The order in which \<^verbatim>\<open>as_completed\<close> yields the futures: by the time at which
  each task finishes.\<close>

definition completion_order :: "world \<Rightarrow> task list \<Rightarrow> task list" where
  "completion_order w ts = sort_key (\<lambda>t. finish_time w (t_idx t)) ts"

text \<open>Lines 237 to 245 over the tasks in the order of their completion, each task run as
  one step on the file system: the numbers of successes and of failures, the failure
  lines printed, and the file system at the end.\<close>

fun collect_loop :: "world \<Rightarrow> task list \<Rightarrow> fs \<Rightarrow> nat \<times> nat \<times> msg list \<times> fs" where
  "collect_loop w [] files = (0, 0, [], files)"
| "collect_loop w (t # ts) files =
     (case download_file w (t_url t) (t_dest t) (t_hashes t) (t_position t) (t_size t) files of
        (r, files') \<Rightarrow>
          (case collect_loop w ts files' of
             (s, f, ms, files'') \<Rightarrow>
               (case r of
                  Inl e \<Rightarrow> (s, Suc f, FailedMsg (t_idx t) (t_total t) (t_url t) e # ms, files'')
                | Inr _ \<Rightarrow> (Suc s, f, ms, files''))))"

text \<open>The counters of lines 198 and 208 to 210 as they stand when line 251 prints the
  summary.\<close>

record summary =
  total_n :: nat
  scheduled :: nat
  succeeded :: nat
  failed :: nat

text \<open>Lines 198 to 253. When the scheduling loop raises, the pool still finishes the
  tasks already submitted before the exception leaves the \<^verbatim>\<open>with\<close> block, and
  nothing is collected or printed for them.\<close>

definition download_phase ::
  "world \<Rightarrow> ppath \<Rightarrow> bool \<Rightarrow> json list \<Rightarrow> fs \<Rightarrow> (error + summary option) \<times> msg list \<times> fs" where
  "download_phase w outdir verify_hashes files_to_download files =
     (let tot = length files_to_download in
      if tot = 0 then (Inr None, [NoFilesAfterFilter], files)
      else
        (case schedule_loop outdir verify_hashes tot 1 0 files_to_download of
           (ts, ms, r) \<Rightarrow>
             (case collect_loop w (completion_order w ts) files of
                (s, f, fms, files') \<Rightarrow>
                  (case r of
                     Some e \<Rightarrow> (Inl e, ms, files')
                   | None \<Rightarrow>
                       (Inr (Some \<lparr>total_n = tot, scheduled = length ts,
                                    succeeded = s, failed = f\<rparr>),
                        ms @ fms @ [Downloaded s (length ts)], files')))))"

text \<open>
  \<open>process_mrpack\<close>, lines 142 to 255: \<open>Inl e\<close> for an exception that leaves the
  function, \<open>Inr\<close> for a return, with the counters when the summary was printed. The
  file system given is the one after the overrides were copied; the lines printed about
  the overrides are left out.
\<close>

definition process_mrpack ::
  "world \<Rightarrow> ppath \<Rightarrow> ppath option \<Rightarrow> bool \<Rightarrow> bool \<Rightarrow> fs
     \<Rightarrow> (error + summary option) \<times> msg list \<times> fs" where
  "process_mrpack w mrpack_path outdir verify_hashes server_files_only files =
     (case archive w mrpack_path of
        NotFound \<Rightarrow> (Inl FileNotFoundError, [], files)
      | BadZip \<Rightarrow> (Inl (RuntimeError ''File is not a valid zip archive''), [], files)
      | Zip pack_data \<Rightarrow>
          (case setup_error w of
             Some m \<Rightarrow> (Inl (OSError m), [], files)
           | None \<Rightarrow>
               (case pack_data of
                  None \<Rightarrow> (Inr None, [IndexNotFound], files)
                | Some pd \<Rightarrow>
                    if \<not> truthy pd then (Inr None, [IndexNotFound], files)
                    else
                      (case py_get pd ''files'' of
                         Inl e \<Rightarrow> (Inl e, [], files)
                       | Inr fl \<Rightarrow>
                           if \<not> truthy fl then (Inr None, [NoFilesListed], files)
                           else
                             (case py_iter fl of
                                Inl e \<Rightarrow> (Inl e, [], files)
                              | Inr entries \<Rightarrow>
                                  (case filter_files server_files_only entries of
                                     Inl e \<Rightarrow> (Inl e, [], files)
                                   | Inr files_to_download \<Rightarrow>
                                       download_phase w
                                         (case outdir of None \<Rightarrow> derived_outdir w | Some d \<Rightarrow> d)
                                         verify_hashes files_to_download files))))))"

text \<open>The command line after \<^verbatim>\<open>argparse\<close>, and \<open>main\<close>, lines 266 to 273: the exit
  status of the process, 2 from \<^verbatim>\<open>sys.exit(2)\<close> and 0 when \<open>main\<close> returns.\<close>

record args =
  a_mrpack :: ppath
  a_outdir :: "ppath option"
  a_verify_hashes :: bool
  a_server_files_only :: bool

definition main :: "world \<Rightarrow> args \<Rightarrow> fs \<Rightarrow> nat \<times> msg list \<times> fs" where
  "main w a files =
     (case process_mrpack w (a_mrpack a) (a_outdir a) (a_verify_hashes a)
             (a_server_files_only a) files of
        (Inl e, ms, files') \<Rightarrow> (2, ms @ [ErrorMsg e], files')
      | (Inr _, ms, files') \<Rightarrow> (0, ms, files'))"

section \<open>Notions of the specification\<close>

text \<open>The environment tag of an entry as the specification reads it: the value of
  \<^verbatim>\<open>env.server\<close>, absent when the entry has no \<^verbatim>\<open>env\<close> object, when the object has no
  \<^verbatim>\<open>server\<close> key, or when the value is \<^verbatim>\<open>null\<close>.\<close>

fun server_tag :: "json \<Rightarrow> json option" where
  "server_tag (JObj kv) =
     (case map_of kv ''env'' of
        Some (JObj ev) \<Rightarrow>
          (case map_of ev ''server'' of
             None \<Rightarrow> None
           | Some JNull \<Rightarrow> None
           | Some v \<Rightarrow> Some v)
      | _ \<Rightarrow> None)"
| "server_tag _ = None"

text \<open>The filtering policy in the specification's words: an absent tag counts as
  unknown, and an entry is kept iff its tag is required, optional or unknown.\<close>

definition spec_keep :: "json \<Rightarrow> bool" where
  "spec_keep entry =
     ((case server_tag entry of None \<Rightarrow> JStr ''unknown'' | Some v \<Rightarrow> v)
        \<in> {JStr ''required'', JStr ''optional'', JStr ''unknown''})"

text \<open>An entry of the shape the manifest format gives: an object whose \<^verbatim>\<open>env\<close>, when
  it has one that is true, is an object.\<close>

fun entry_shaped :: "json \<Rightarrow> bool" where
  "entry_shaped (JObj kv) =
     (case dict_get kv ''env'' of JObj ev \<Rightarrow> True | v \<Rightarrow> \<not> truthy v)"
| "entry_shaped _ = False"

text \<open>The parts of a rooted path once every \<^verbatim>\<open>..\<close> has been followed (the parent of the
  root is the root), without symbolic links; the first argument is the stack of the
  parts read so far, innermost first.\<close>

fun collapse :: "string list \<Rightarrow> string list \<Rightarrow> string list" where
  "collapse acc [] = rev acc"
| "collapse acc (p # ps) =
     (if p = ''..'' then collapse (tl acc) ps else collapse (p # acc) ps)"

text \<open>A rooted path lies inside a rooted directory.\<close>

fun inside_root :: "ppath \<Rightarrow> ppath \<Rightarrow> bool" where
  "inside_root (PPath a root) (PPath b ps) =
     (a \<and> b \<and> prefix (collapse [] root) (collapse [] ps))"

text \<open>What a task does when it is run alone on an empty file system.\<close>

definition outcome :: "world \<Rightarrow> task \<Rightarrow> error + bool" where
  "outcome w t =
     fst (download_file w (t_url t) (t_dest t) (t_hashes t) (t_position t) (t_size t) Map.empty)"

text \<open>The failure line of a task, if it fails, and the failure lines of a list of
  tasks in the order of the list.\<close>

definition failure_line :: "world \<Rightarrow> task \<Rightarrow> msg list" where
  "failure_line w t =
     (case outcome w t of
        Inl e \<Rightarrow> [FailedMsg (t_idx t) (t_total t) (t_url t) e]
      | Inr _ \<Rightarrow> [])"

definition failure_lines :: "world \<Rightarrow> task list \<Rightarrow> msg list" where
  "failure_lines w ts = concat (map (failure_line w) ts)"

definition count_ok :: "world \<Rightarrow> task list \<Rightarrow> nat" where
  "count_ok w ts = length (filter (\<lambda>t. isl (outcome w t) = False) ts)"

fun is_skip :: "msg \<Rightarrow> bool" where
  "is_skip (SkipNoPath i n) = True"
| "is_skip (SkipNoUrl i n p) = True"
| "is_skip _ = False"

section \<open>Example runs\<close>

definition demo_root :: ppath where
  "demo_root = PPath True [''srv'', ''pack'']"

definition demo_pack :: ppath where
  "demo_pack = PPath True [''srv'', ''pack.mrpack'']"

definition demo_entry :: "string \<Rightarrow> string \<Rightarrow> json" where
  "demo_entry p u = JObj [(''path'', JStr p), (''downloads'', JArr [JStr u])]"

text \<open>A network with one good file, one stream that breaks and no other host; the
  hash functions are stand-ins (the bytes themselves, and the bytes reversed); the task of
  a later index finishes earlier.\<close>

definition demo_index :: json where
  "demo_index =
     JObj [(''name'', JStr ''demo''),
           (''files'', JArr [demo_entry ''mods/a.jar'' ''http://h/a.jar'',
                             demo_entry ''mods/b.jar'' ''http://h/b.jar'',
                             demo_entry ''mods/c.jar'' ''http://nowhere/c.jar''])]"

definition demo_world :: world where
  "demo_world =
     \<lparr>has_requests = True, has_tqdm = True,
      http_get = (\<lambda>u. if u = JStr ''http://h/a.jar'' then Stream [''ab'', [], ''c''] None
                      else if u = JStr ''http://h/b.jar''
                        then Stream [''xy''] (Some ''connection reset'')
                      else GetFails ''unreachable''),
      mkdir_error = (\<lambda>d. None), open_error = (\<lambda>d. None), unlink_fails = (\<lambda>d. False),
      sha1_hex = (\<lambda>b. b), sha512_hex = rev,
      finish_time = (\<lambda>i. 10 - i),
      archive = (\<lambda>p. if p = demo_pack then Zip (Some demo_index) else NotFound),
      setup_error = None, derived_outdir = demo_root\<rparr>"

definition demo_args :: args where
  "demo_args = \<lparr>a_mrpack = demo_pack, a_outdir = Some demo_root,
                a_verify_hashes = False, a_server_files_only = False\<rparr>"

section \<open>Properties of download_file\<close>

lemma write_chunks_concat:
  "write_chunks chunks (f, h1, h512) =
     (f @ concat chunks, map_option (\<lambda>h. h @ concat chunks) h1,
      map_option (\<lambda>h. h @ concat chunks) h512)"
  by (induction chunks arbitrary: f h1 h512) (auto simp: option.map_comp comp_def option.map_ident)

lemma new_hasher_shaped:
  "expected_hashes = JNull \<or> expected_hashes = JObj kv \<Longrightarrow>
     new_hasher alg expected_hashes =
       Inr (if truthy expected_hashes \<and> alg \<in> fst ` set kv then Some [] else None)"
  by (force simp: new_hasher_def)

lemma fetch_fst_indep:
  "fst (fetch w url dest h1 h512 files) = fst (fetch w url dest h1 h512 files')"
  by (simp add: fetch_def write_chunks_concat split: response.splits option.splits)

lemma download_file_fst:
  "fst (download_file w url dest eh p s files) =
     (if \<not> has_requests w then
        Inl (RuntimeError ''requests library is required to download files. Install with: pip install -r requirements.txt'')
      else if \<not> has_tqdm w then
        Inl (RuntimeError ''tqdm is required for progress bars. Install with: pip install -r requirements.txt'')
      else
        (case mkdir_error w dest of
           Some m \<Rightarrow> Inl (OSError m)
         | None \<Rightarrow>
             (case new_hasher ''sha1'' eh of
                Inl e \<Rightarrow> Inl e
              | Inr h1 \<Rightarrow>
                  (case new_hasher ''sha512'' eh of
                     Inl e \<Rightarrow> Inl e
                   | Inr h512 \<Rightarrow>
                       (case fst (fetch w url dest h1 h512 files) of
                          Inl e \<Rightarrow> Inl e
                        | Inr hs \<Rightarrow>
                            (case verify w dest eh (fst hs) (snd hs) of
                               Inl e \<Rightarrow> Inl e
                             | Inr _ \<Rightarrow> Inr True))))))"
  by (simp add: download_file_def split: option.split sum.split prod.split)

lemma download_file_fst_indep:
  "fst (download_file w url dest eh p s files) = fst (download_file w url dest eh p' s' files')"
  by (simp only: download_file_fst fetch_fst_indep[of w url dest _ _ files files'])

lemma fetch_frame:
  "d \<noteq> dest \<Longrightarrow> snd (fetch w url dest h1 h512 files) d = files d"
  by (simp add: fetch_def write_chunks_concat split: response.splits option.splits)

lemma cleanup_frame: "d \<noteq> dest \<Longrightarrow> cleanup w dest files d = files d"
  by (simp add: cleanup_def)

lemma fetch_Inr:
  "fetch w url dest h1 h512 files = (Inr hs, files') \<Longrightarrow>
     \<exists>chunks. http_get w url = Stream chunks None \<and> open_error w dest = None \<and>
       files' = files(dest \<mapsto> concat chunks) \<and>
       hs = (map_option (\<lambda>h. h @ concat chunks) h1, map_option (\<lambda>h. h @ concat chunks) h512)"
  by (auto simp: fetch_def write_chunks_concat split: response.splits option.splits)

lemma fetch_Inl:
  "fetch w url dest h1 h512 files = (Inl e, files') \<Longrightarrow> \<exists>m. e = OSError m"
  by (auto simp: fetch_def write_chunks_concat split: response.splits option.splits)

lemma download_file_cases:
  assumes "download_file w url dest eh p s files = (r, files')"
  obtains
    (early) e where "r = Inl e" "files' = files" "\<forall>l d x g. e \<noteq> Mismatch l d x g"
  | (transport) m files1 h1 h512 where "r = Inl (OSError m)"
      "fetch w url dest h1 h512 files = (Inl (OSError m), files1)" "files' = cleanup w dest files1"
  | (fetched) chunks h1 h512 where "http_get w url = Stream chunks None"
      "files' = files(dest \<mapsto> concat chunks)"
      "new_hasher ''sha1'' eh = Inr h1" "new_hasher ''sha512'' eh = Inr h512"
      "r = (case verify w dest eh (map_option (\<lambda>h. h @ concat chunks) h1)
                 (map_option (\<lambda>h. h @ concat chunks) h512) of Inl e \<Rightarrow> Inl e | Inr _ \<Rightarrow> Inr True)"
proof (cases "has_requests w \<and> has_tqdm w \<and> mkdir_error w dest = None")
  case False
  with assms have "\<exists>e. r = Inl e \<and> files' = files \<and> (\<forall>l d x g. e \<noteq> Mismatch l d x g)"
    by (auto simp: download_file_def split: if_splits option.splits)
  then show ?thesis using early by blast
next
  case True
  note env = this
  show ?thesis
  proof (cases "new_hasher ''sha1'' eh")
    case (Inl e)
    with env assms have "r = Inl e \<and> files' = files"
      by (auto simp: download_file_def)
    moreover from Inl have "\<forall>l d x g. e \<noteq> Mismatch l d x g"
      by (auto simp: new_hasher_def split: if_splits sum.splits elim: py_in.elims)
    ultimately show ?thesis using early by blast
  next
    case h1: (Inr h1)
    show ?thesis
    proof (cases "new_hasher ''sha512'' eh")
      case (Inl e)
      with env h1 assms have "r = Inl e \<and> files' = files"
        by (auto simp: download_file_def)
      moreover from Inl have "\<forall>l d x g. e \<noteq> Mismatch l d x g"
        by (auto simp: new_hasher_def split: if_splits sum.splits elim: py_in.elims)
      ultimately show ?thesis using early by blast
    next
      case h512: (Inr h512)
      obtain fr files1 where f: "fetch w url dest h1 h512 files = (fr, files1)"
        by (cases "fetch w url dest h1 h512 files")
      show ?thesis
      proof (cases fr)
        case (Inl e)
        with f obtain m where "e = OSError m" using fetch_Inl by blast
        with Inl f env h1 h512 assms show ?thesis
          by (intro transport[of m h1 h512 files1]) (auto simp: download_file_def)
      next
        case (Inr hs)
        with f fetch_Inr obtain chunks where c: "http_get w url = Stream chunks None"
          "files1 = files(dest \<mapsto> concat chunks)"
          "hs = (map_option (\<lambda>h. h @ concat chunks) h1, map_option (\<lambda>h. h @ concat chunks) h512)"
          by blast
        with Inr f env h1 h512 assms show ?thesis
          by (intro fetched[of chunks h1 h512]) (auto simp: download_file_def split: sum.splits)
      qed
    qed
  qed
qed


lemma download_file_frame:
  assumes "d \<noteq> dest"
  shows "snd (download_file w url dest eh p s files) d = files d"
proof -
  obtain r files' where run: "download_file w url dest eh p s files = (r, files')"
    by (cases "download_file w url dest eh p s files")
  from run have "files' d = files d"
  proof (cases rule: download_file_cases)
    case (early e)
    then show ?thesis by simp
  next
    case (transport m files1 h1 h512)
    from fetch_frame[OF assms, of w url h1 h512 files] transport(2)
    have "files1 d = files d" by simp
    with transport(3) assms show ?thesis by (simp add: cleanup_frame)
  next
    case (fetched chunks h1 h512)
    with assms show ?thesis by simp
  qed
  with run show ?thesis by simp
qed

section \<open>The file left by a task\<close>

text \<open>
  Claim C1. The claim asks that the destination file exists after a task iff the task
  succeeded, and in particular that no file is left after a digest mismatch. The code
  compares the digests (lines 129 to 138) after the \<^verbatim>\<open>try\<close> block whose handler
  unlinks the file, so a task that ends with a mismatch leaves the whole download at the
  destination: whenever \<open>download_file\<close> raises the mismatch error, the stream was
  read to its end and the destination holds all of its bytes.
\<close>

theorem digest_mismatch_leaves_file:
  assumes "download_file w url dest expected_hashes position total_size files =
             (Inl (Mismatch label d expected got), files')"
  shows "\<exists>chunks. http_get w url = Stream chunks None \<and> files' dest = Some (concat chunks)"
  using assms
proof (cases rule: download_file_cases)
  case (early e)
  then show ?thesis by blast
next
  case (transport m files1 h1 h512)
  then show ?thesis by simp
next
  case (fetched chunks h1 h512)
  then show ?thesis by simp
qed

theorem digest_mismatch_leaves_file_witness:
  "download_file demo_world (JStr ''http://h/a.jar'') (PPath True [''srv'', ''a.jar''])
      (JObj [(''sha1'', JStr ''0000'')]) 0 JNull Map.empty =
     (Inl (Mismatch ''SHA1'' (PPath True [''srv'', ''a.jar'']) ''0000'' ''abc''),
      [PPath True [''srv'', ''a.jar''] \<mapsto> ''abc''])
   \<and> (\<exists>chunks. http_get demo_world (JStr ''http://h/a.jar'') = Stream chunks None \<and>
        [PPath True [''srv'', ''a.jar''] \<mapsto> ''abc''] (PPath True [''srv'', ''a.jar''])
          = Some (concat chunks))"
proof -
  have run: "download_file demo_world (JStr ''http://h/a.jar'') (PPath True [''srv'', ''a.jar''])
      (JObj [(''sha1'', JStr ''0000'')]) 0 JNull Map.empty =
     (Inl (Mismatch ''SHA1'' (PPath True [''srv'', ''a.jar'']) ''0000'' ''abc''),
      [PPath True [''srv'', ''a.jar''] \<mapsto> ''abc''])"
    by (simp add: download_file_def demo_world_def new_hasher_def fetch_def verify_def
          check_hash_def lower_def lower_char_def)
  from digest_mismatch_leaves_file[OF run] run show ?thesis by simp
qed

text \<open>
  Claim C4. When the stream breaks after some chunks (the imports are there, the
  directory could be made, the expected hashes are a dictionary or \<^verbatim>\<open>None\<close>, and the
  file could be opened), the task fails with the transport error as its reason, whether
  or not the unlink works, and the partial file is removed unless the unlink fails, in
  which case it stays with the bytes written so far.
\<close>

theorem transport_error_cleanup:
  assumes "has_requests w" and "has_tqdm w" and "mkdir_error w dest = None"
    and "expected_hashes = JNull \<or> expected_hashes = JObj kv"
    and "open_error w dest = None"
    and "http_get w url = Stream chunks (Some m)"
  shows "fst (download_file w url dest expected_hashes position total_size files) = Inl (OSError m)
    \<and> snd (download_file w url dest expected_hashes position total_size files) dest =
        (if unlink_fails w dest then Some (concat chunks) else None)"
  using assms new_hasher_shaped[OF assms(4), of "''sha1''"] new_hasher_shaped[OF assms(4), of "''sha512''"]
  by (simp add: download_file_def fetch_def write_chunks_concat cleanup_def)

theorem transport_error_cleanup_witness:
  "has_requests demo_world \<and> has_tqdm demo_world
   \<and> mkdir_error demo_world (PPath True [''srv'', ''b.jar'']) = None
   \<and> open_error demo_world (PPath True [''srv'', ''b.jar'']) = None
   \<and> http_get demo_world (JStr ''http://h/b.jar'') = Stream [''xy''] (Some ''connection reset'')
   \<and> fst (download_file demo_world (JStr ''http://h/b.jar'') (PPath True [''srv'', ''b.jar''])
        JNull 0 JNull Map.empty) = Inl (OSError ''connection reset'')
   \<and> snd (download_file demo_world (JStr ''http://h/b.jar'') (PPath True [''srv'', ''b.jar''])
        JNull 0 JNull Map.empty) (PPath True [''srv'', ''b.jar'']) = None"
proof -
  have h: "has_requests demo_world" "has_tqdm demo_world"
    "mkdir_error demo_world (PPath True [''srv'', ''b.jar'']) = None"
    "JNull = JNull \<or> JNull = JObj []"
    "open_error demo_world (PPath True [''srv'', ''b.jar'']) = None"
    "http_get demo_world (JStr ''http://h/b.jar'') = Stream [''xy''] (Some ''connection reset'')"
    "\<not> unlink_fails demo_world (PPath True [''srv'', ''b.jar''])"
    by (simp_all add: demo_world_def)
  from transport_error_cleanup[OF h(1-6), of 0 JNull Map.empty] h show ?thesis by simp
qed


end
